theory Spec2Isabelle
  imports
    Complex_Main
    "HOL-Library.Product_Lexorder"
    "HOL-Library.List_Lexorder"
    "HOL-Library.Char_ord"
    "HOL-Library.Multiset"
begin

section \<open>The COVID-19 analysis script \<^verbatim>\<open>bigquery/bq_c19.py\<close>\<close>

text \<open>
  The script is one pass over a table of cumulative counts per state and day: two SQL
  queries (window functions), a handful of pandas column operations, and plots. The
  plots are left out; every table the script derives is a list of rows here, in the
  order the script leaves it.

  Conventions of the embedding:
  \<^item> a calendar date is the triple (year, month, day), ordered lexicographically;
  \<^item> SQL \<^verbatim>\<open>NULL\<close>, pandas \<^verbatim>\<open>NA\<close> and a \<^verbatim>\<open>NaN\<close> that stands for a
    missing value are \<open>None\<close>;
  \<^item> \<^verbatim>\<open>INT64\<close> is \<open>int\<close> and \<^verbatim>\<open>FLOAT64\<close> is \<open>real\<close>: overflow and rounding
    are not modelled;
  \<^item> an exception or a failed query is a value \<open>Inl e\<close> of \<open>error + 'a\<close>.
\<close>

subsection \<open>Data\<close>

type_synonym date = "nat \<times> nat \<times> nat"

type_synonym period = "nat \<times> nat"

datatype error = AssertionError | DivisionByZero

text \<open>The metadata of the fetched table that the two assertions read.\<close>

record table =
  num_rows :: nat
  schema :: "string list"

record key_row =
  state_name :: string
  date :: date

text \<open>A row of \<^verbatim>\<open>bigquery-public-data.covid19_nyt.us_states\<close>, with the columns the
  queries read.\<close>

record us_states_row = key_row +
  confirmed_cases :: int
  deaths :: int

text \<open>A row of the common table expression \<^verbatim>\<open>us_states_day\<close>. The expression also
  carries \<^verbatim>\<open>confirmed_cases\<close> and \<^verbatim>\<open>deaths\<close>, which the outer \<^verbatim>\<open>SELECT\<close>
  does not read.\<close>

record delta_row = key_row +
  confirmed_cases_day :: "int option"
  deaths_day :: "int option"

text \<open>A row of the data frame \<^verbatim>\<open>data\<close> (and of \<^verbatim>\<open>ny_data\<close>).\<close>

record data_row = delta_row +
  confirmed_cases_day_zscore :: "real option"
  deaths_day_zscore :: "real option"

subsection \<open>The first query: daily deltas and z-scores\<close>

text \<open>\<^verbatim>\<open>Series.unique()\<close> and the order in which a partition is first met: first
  occurrences, in order.\<close>

definition unique :: "'a list \<Rightarrow> 'a list" where
  "unique xs = rev (remdups (rev xs))"

text \<open>\<^verbatim>\<open>PARTITION BY state_name ORDER BY date\<close>.\<close>

definition partition_by_state :: "string \<Rightarrow> us_states_row list \<Rightarrow> us_states_row list" where
  "partition_by_state s t = sort_key date (filter (\<lambda>r. state_name r = s) t)"

text \<open>\<^verbatim>\<open>x - LAG(x) OVER (...)\<close> along one ordered partition: \<open>prev\<close> is the row before
  the current one, absent at the first row, where \<^verbatim>\<open>LAG\<close> is \<^verbatim>\<open>NULL\<close>.\<close>

fun lag_window :: "us_states_row option \<Rightarrow> us_states_row list \<Rightarrow> delta_row list" where
  "lag_window prev [] = []"
| "lag_window prev (r # rs) =
     \<lparr>state_name = state_name r, date = date r,
      confirmed_cases_day = map_option (\<lambda>p. confirmed_cases r - confirmed_cases p) prev,
      deaths_day = map_option (\<lambda>p. deaths r - deaths p) prev\<rparr>
     # lag_window (Some r) rs"

definition us_states_day :: "us_states_row list \<Rightarrow> delta_row list" where
  "us_states_day t =
     concat (map (\<lambda>s. lag_window None (partition_by_state s t)) (unique (map state_name t)))"

text \<open>Aggregates skip \<^verbatim>\<open>NULL\<close>.\<close>

definition non_null :: "'a option list \<Rightarrow> 'a list" where
  "non_null xs = concat (map (\<lambda>x. case x of None \<Rightarrow> [] | Some v \<Rightarrow> [v]) xs)"

definition AVG :: "int option list \<Rightarrow> real option" where
  "AVG col =
     (let ys = non_null col
      in if ys = [] then None else Some (real_of_int (sum_list ys) / real (length ys)))"

text \<open>\<^verbatim>\<open>STDDEV\<close> is BigQuery's alias of \<^verbatim>\<open>STDDEV_SAMP\<close>: the divisor is \<open>n - 1\<close>, and
  the result is \<^verbatim>\<open>NULL\<close> on fewer than two values.\<close>

definition STDDEV :: "int option list \<Rightarrow> real option" where
  "STDDEV col =
     (let ys = non_null col; n = length ys
      in if n < 2 then None
         else let m = real_of_int (sum_list ys) / real n
              in Some (sqrt (sum_list (map (\<lambda>y. (real_of_int y - m)\<^sup>2) ys) / real (n - 1))))"

definition NULLIF :: "real option \<Rightarrow> real \<Rightarrow> real option" where
  "NULLIF v z = (if v = Some z then None else v)"

definition sql_minus :: "int option \<Rightarrow> real option \<Rightarrow> real option" where
  "sql_minus a b =
     (case a of None \<Rightarrow> None
      | Some x \<Rightarrow> (case b of None \<Rightarrow> None | Some y \<Rightarrow> Some (real_of_int x - y)))"

text \<open>Division: \<^verbatim>\<open>NULL\<close> if an operand is, and the query fails on a zero divisor.\<close>

definition sql_divide :: "real option \<Rightarrow> real option \<Rightarrow> error + real option" where
  "sql_divide a b =
     (case b of None \<Rightarrow> Inr None
      | Some y \<Rightarrow>
          (case a of None \<Rightarrow> Inr None
           | Some x \<Rightarrow> if y = 0 then Inl DivisionByZero else Inr (Some (x / y))))"

text \<open>\<^verbatim>\<open>(v - AVG(v) OVER w) / NULLIF(STDDEV(v) OVER w, 0)\<close>, with \<open>col\<close> the column
  \<open>v\<close> over the window.\<close>

definition zscore :: "int option \<Rightarrow> int option list \<Rightarrow> error + real option" where
  "zscore v col = sql_divide (sql_minus v (AVG col)) (NULLIF (STDDEV col) 0)"

definition select_row :: "delta_row list \<Rightarrow> delta_row \<Rightarrow> error + data_row" where
  "select_row cte r =
     (let w = filter (\<lambda>q. state_name q = state_name r) cte
      in case zscore (confirmed_cases_day r) (map confirmed_cases_day w) of
           Inl e \<Rightarrow> Inl e
         | Inr cz \<Rightarrow>
             (case zscore (deaths_day r) (map deaths_day w) of
                Inl e \<Rightarrow> Inl e
              | Inr dz \<Rightarrow>
                  Inr \<lparr>state_name = state_name r, date = date r,
                       confirmed_cases_day = confirmed_cases_day r,
                       deaths_day = deaths_day r,
                       confirmed_cases_day_zscore = cz,
                       deaths_day_zscore = dz\<rparr>))"

text \<open>Evaluating the select list on every row; the first failure fails the query.\<close>

fun select_rows :: "delta_row list \<Rightarrow> delta_row list \<Rightarrow> error + data_row list" where
  "select_rows cte [] = Inr []"
| "select_rows cte (r # rs) =
     (case select_row cte r of
        Inl e \<Rightarrow> Inl e
      | Inr x \<Rightarrow> (case select_rows cte rs of Inl e \<Rightarrow> Inl e | Inr xs \<Rightarrow> Inr (x # xs)))"

text \<open>The whole of \<^verbatim>\<open>query\<close>, ending in \<^verbatim>\<open>ORDER BY date\<close>.\<close>

definition query :: "us_states_row list \<Rightarrow> error + data_row list" where
  "query t =
     (case select_rows (us_states_day t) (us_states_day t) of
        Inl e \<Rightarrow> Inl e
      | Inr rows \<Rightarrow> Inr (sort_key date rows))"

subsection \<open>Cleaning, the New York slice, monthly sums, outliers\<close>

text \<open>\<^verbatim>\<open>Series.clip(lower=lo)\<close>: missing values stay missing.\<close>

definition clip :: "int \<Rightarrow> int option list \<Rightarrow> int option list" where
  "clip lo col = map (map_option (max lo)) col"

text \<open>The two column assignments of lines 107 and 108.\<close>

definition clip_confirmed_cases_day :: "data_row list \<Rightarrow> data_row list" where
  "clip_confirmed_cases_day df =
     map2 (\<lambda>r v. r\<lparr>confirmed_cases_day := v\<rparr>) df (clip 0 (map confirmed_cases_day df))"

definition clip_deaths_day :: "data_row list \<Rightarrow> data_row list" where
  "clip_deaths_day df =
     map2 (\<lambda>r v. r\<lparr>deaths_day := v\<rparr>) df (clip 0 (map deaths_day df))"

definition clean :: "data_row list \<Rightarrow> data_row list" where
  "clean df = clip_deaths_day (clip_confirmed_cases_day df)"

definition ny_data :: "data_row list \<Rightarrow> data_row list" where
  "ny_data df = sort_key date (filter (\<lambda>r. state_name r = ''New York'') df)"

text \<open>\<^verbatim>\<open>dt.to_period("M")\<close>.\<close>

definition to_period_M :: "date \<Rightarrow> period" where
  "to_period_M d = (fst d, fst (snd d))"

text \<open>\<^verbatim>\<open>Series.sum()\<close> skips missing values; the sum of none is 0.\<close>

definition series_sum :: "int option list \<Rightarrow> int" where
  "series_sum col = sum_list (non_null col)"

text \<open>\<^verbatim>\<open>groupby("month")["deaths_day"].sum().reset_index()\<close>: one row per month that
  occurs, in ascending order of the month.\<close>

definition monthly_deaths :: "data_row list \<Rightarrow> (period \<times> int) list" where
  "monthly_deaths ny =
     map (\<lambda>m. (m, series_sum (map deaths_day (filter (\<lambda>r. to_period_M (date r) = m) ny))))
         (sort (remdups (map (\<lambda>r. to_period_M (date r)) ny)))"

definition upper_bound :: real where
  "upper_bound = 3"

definition lower_bound :: real where
  "lower_bound = - 3"

text \<open>Comparisons of a float column with a number: false on \<^verbatim>\<open>NaN\<close>.\<close>

definition series_gt :: "real option \<Rightarrow> real \<Rightarrow> bool" where
  "series_gt v b = (case v of None \<Rightarrow> False | Some x \<Rightarrow> x > b)"

definition series_lt :: "real option \<Rightarrow> real \<Rightarrow> bool" where
  "series_lt v b = (case v of None \<Rightarrow> False | Some x \<Rightarrow> x < b)"

definition outliers :: "data_row list \<Rightarrow> data_row list" where
  "outliers ny =
     filter (\<lambda>r. series_gt (confirmed_cases_day_zscore r) upper_bound
                \<or> series_lt (confirmed_cases_day_zscore r) lower_bound) ny"

definition outliers_deaths :: "data_row list \<Rightarrow> data_row list" where
  "outliers_deaths ny =
     filter (\<lambda>r. series_gt (deaths_day_zscore r) upper_bound
                \<or> series_lt (deaths_day_zscore r) lower_bound) ny"

subsection \<open>The second query: the highest month of every state, per capita\<close>

text \<open>A row of the data frame \<^verbatim>\<open>data2\<close> before the merge.\<close>

record month_row = key_row +
  year :: nat
  month :: nat
  highest_monthly_confirmed_cases :: int

text \<open>\<^verbatim>\<open>MAX(confirmed_cases) OVER (PARTITION BY state_name, year, month)\<close>, on every row
  of the table.\<close>

definition same_month :: "us_states_row \<Rightarrow> us_states_row \<Rightarrow> bool" where
  "same_month r q \<longleftrightarrow>
     state_name q = state_name r \<and> fst (date q) = fst (date r)
     \<and> fst (snd (date q)) = fst (snd (date r))"

definition sql_query :: "us_states_row list \<Rightarrow> month_row list" where
  "sql_query t =
     map (\<lambda>r. \<lparr>state_name = state_name r, date = date r,
               year = fst (date r), month = fst (snd (date r)),
               highest_monthly_confirmed_cases =
                 Max (set (map confirmed_cases (filter (same_month r) t)))\<rparr>) t"

text \<open>\<^verbatim>\<open>groupby(["state_name", "year", "month"]).max().reset_index()\<close>: one row per
  key that occurs, keys ascending, every other column at its maximum over the group.\<close>

definition group_key :: "month_row \<Rightarrow> string \<times> nat \<times> nat" where
  "group_key r = (state_name r, year r, month r)"

definition groupby_max :: "month_row list \<Rightarrow> month_row list" where
  "groupby_max df =
     map (\<lambda>k. let g = filter (\<lambda>r. group_key r = k) df
              in \<lparr>state_name = fst k, date = Max (set (map date g)),
                  year = fst (snd k), month = snd (snd k),
                  highest_monthly_confirmed_cases =
                    Max (set (map highest_monthly_confirmed_cases g))\<rparr>)
         (sort (remdups (map group_key df)))"

text \<open>\<^verbatim>\<open>sort_values(by='highest_monthly_confirmed_cases', ascending=False)\<close>.\<close>

definition sort_by_highest :: "month_row list \<Rightarrow> month_row list" where
  "sort_by_highest df = sort_key (\<lambda>r. - highest_monthly_confirmed_cases r) df"

text \<open>The loop of lines 260 to 264 that fills the dictionary, in insertion order.\<close>

definition states_and_highest_month :: "month_row list \<Rightarrow> (string \<times> int) list" where
  "states_and_highest_month df =
     map (\<lambda>state. (state,
            Max (set (map highest_monthly_confirmed_cases
                        (filter (\<lambda>r. state_name r = state) df)))))
         (unique (map state_name df))"

text \<open>A float column of pandas: division by zero gives an infinity or \<^verbatim>\<open>NaN\<close>, it does
  not raise.\<close>

datatype float64 = Finite real | PosInf | NegInf | NaN

record merged_row = month_row +
  population :: "int option"
  highest_monthly_confirmed_cases_per_capita :: float64

text \<open>\<^verbatim>\<open>data2.merge(pop_per_state, how="left", on="state_name")\<close>, the population frame
  being a list of pairs (state_name, population): every left row once per matching
  right row, and once with a missing population when none matches. The new column is
  filled by \<open>per_capita\<close> below.\<close>

definition with_population :: "month_row \<Rightarrow> int option \<Rightarrow> merged_row" where
  "with_population r p =
     \<lparr>state_name = state_name r, date = date r, year = year r, month = month r,
      highest_monthly_confirmed_cases = highest_monthly_confirmed_cases r,
      population = p, highest_monthly_confirmed_cases_per_capita = NaN\<rparr>"

definition merge_left :: "month_row list \<Rightarrow> (string \<times> int) list \<Rightarrow> merged_row list" where
  "merge_left df pop_per_state =
     concat (map (\<lambda>r. case filter (\<lambda>p. fst p = state_name r) pop_per_state of
                        [] \<Rightarrow> [with_population r None]
                      | ms \<Rightarrow> map (\<lambda>p. with_population r (Some (snd p))) ms) df)"

text \<open>The division of the two columns, element by element.\<close>

definition true_divide :: "int \<Rightarrow> int option \<Rightarrow> float64" where
  "true_divide a b =
     (case b of None \<Rightarrow> NaN
      | Some p \<Rightarrow>
          if p = 0 then (if a > 0 then PosInf else if a < 0 then NegInf else NaN)
          else Finite (real_of_int a / real_of_int p))"

definition per_capita :: "merged_row list \<Rightarrow> merged_row list" where
  "per_capita df =
     map (\<lambda>r. r\<lparr>highest_monthly_confirmed_cases_per_capita :=
                  true_divide (highest_monthly_confirmed_cases r) (population r)\<rparr>) df"

text \<open>\<^verbatim>\<open>sort_values(by=..., ascending=False)\<close> on a float column: largest first,
  \<^verbatim>\<open>NaN\<close> last. The key below is ascending in exactly that order.\<close>

fun descending_key :: "float64 \<Rightarrow> nat \<times> real" where
  "descending_key PosInf = (0, 0)"
| "descending_key (Finite x) = (1, - x)"
| "descending_key NegInf = (2, 0)"
| "descending_key NaN = (3, 0)"

definition sort_by_per_capita :: "merged_row list \<Rightarrow> merged_row list" where
  "sort_by_per_capita df =
     sort_key (\<lambda>r. descending_key (highest_monthly_confirmed_cases_per_capita r)) df"

text \<open>\<^verbatim>\<open>data2\<close> as the script leaves it (lines 240 to 314).\<close>

definition data2 :: "us_states_row list \<Rightarrow> (string \<times> int) list \<Rightarrow> merged_row list" where
  "data2 t pop_per_state =
     sort_by_per_capita
       (per_capita (merge_left (sort_by_highest (groupby_max (sql_query t))) pop_per_state))"

subsection \<open>The script\<close>

record results =
  res_data :: "data_row list"
  res_ny_data :: "data_row list"
  res_monthly_deaths :: "(period \<times> int) list"
  res_outliers :: "data_row list"
  res_outliers_deaths :: "data_row list"
  res_states_and_highest_month :: "(string \<times> int) list"
  res_data2 :: "merged_row list"

text \<open>The script from the two assertions on. A failed \<^verbatim>\<open>assert\<close> raises before the
  first query is sent.\<close>

definition script ::
  "table \<Rightarrow> us_states_row list \<Rightarrow> (string \<times> int) list \<Rightarrow> error + results" where
  "script tb t pop_per_state =
     (if num_rows tb \<noteq> 61942 then Inl AssertionError
      else if length (schema tb) \<noteq> 5 then Inl AssertionError
      else case query t of
             Inl e \<Rightarrow> Inl e
           | Inr df \<Rightarrow>
               (let data = clean df; ny = ny_data data
                in Inr \<lparr>res_data = data, res_ny_data = ny,
                        res_monthly_deaths = monthly_deaths ny,
                        res_outliers = outliers ny,
                        res_outliers_deaths = outliers_deaths ny,
                        res_states_and_highest_month =
                          states_and_highest_month
                            (sort_by_highest (groupby_max (sql_query t))),
                        res_data2 = data2 t pop_per_state\<rparr>))"

subsection \<open>Notions the properties are stated with, and a sample table\<close>

text \<open>A missing delta read as a contribution of 0.\<close>

definition value_or_0 :: "int option \<Rightarrow> int" where
  "value_or_0 v = (case v of None \<Rightarrow> 0 | Some d \<Rightarrow> d)"

text \<open>Mean, and the two standard deviations of a list of deltas: \<open>sample_stddev\<close>
  divides by \<open>n - 1\<close>, \<open>population_stddev\<close>, the one the specification names, by \<open>n\<close>.\<close>

definition mean :: "int list \<Rightarrow> real" where
  "mean ds = real_of_int (sum_list ds) / real (length ds)"

definition sample_stddev :: "int list \<Rightarrow> real" where
  "sample_stddev ds =
     sqrt (sum_list (map (\<lambda>d. (real_of_int d - mean ds)\<^sup>2) ds) / real (length ds - 1))"

definition population_stddev :: "int list \<Rightarrow> real" where
  "population_stddev ds =
     sqrt (sum_list (map (\<lambda>d. (real_of_int d - mean ds)\<^sup>2) ds) / real (length ds))"

text \<open>The z-score of a delta against the defined deltas \<open>ds\<close> of its state.\<close>

definition sample_zscore :: "int option \<Rightarrow> int list \<Rightarrow> real option" where
  "sample_zscore v ds =
     (case v of None \<Rightarrow> None
      | Some x \<Rightarrow>
          if length ds < 2 \<or> sample_stddev ds = 0 then None
          else Some ((real_of_int x - mean ds) / sample_stddev ds))"

text \<open>The row the select list yields for a row \<open>r\<close> of the common table expression
  when no division fails.\<close>

definition zscore_row :: "delta_row list \<Rightarrow> delta_row \<Rightarrow> data_row" where
  "zscore_row cte r =
     \<lparr>state_name = state_name r, date = date r,
      confirmed_cases_day = confirmed_cases_day r, deaths_day = deaths_day r,
      confirmed_cases_day_zscore =
        sample_zscore (confirmed_cases_day r)
          (non_null (map confirmed_cases_day (filter (\<lambda>q. state_name q = state_name r) cte))),
      deaths_day_zscore =
        sample_zscore (deaths_day r)
          (non_null (map deaths_day (filter (\<lambda>q. state_name q = state_name r) cte)))\<rparr>"

text \<open>The rows of a query result, none if the query failed.\<close>

definition the_rows :: "error + 'a list \<Rightarrow> 'a list" where
  "the_rows x = (case x of Inl e \<Rightarrow> [] | Inr rows \<Rightarrow> rows)"

text \<open>What the two clipping assignments together do to one row.\<close>

definition clean_row :: "data_row \<Rightarrow> data_row" where
  "clean_row r =
     r\<lparr>confirmed_cases_day := map_option (max 0) (confirmed_cases_day r),
       deaths_day := map_option (max 0) (deaths_day r)\<rparr>"

text \<open>Four consecutive days of New York across a month boundary, given out of order,
  with a downward correction of the deaths on the third day, and one day of Texas.\<close>

definition sample_table :: "us_states_row list" where
  "sample_table =
     [\<lparr>state_name = ''New York'', date = (2020, 4, 1), confirmed_cases = 7, deaths = 103\<rparr>,
      \<lparr>state_name = ''Texas'', date = (2020, 3, 30), confirmed_cases = 3, deaths = 0\<rparr>,
      \<lparr>state_name = ''New York'', date = (2020, 3, 30), confirmed_cases = 5, deaths = 100\<rparr>,
      \<lparr>state_name = ''New York'', date = (2020, 4, 2), confirmed_cases = 11, deaths = 110\<rparr>,
      \<lparr>state_name = ''New York'', date = (2020, 3, 31), confirmed_cases = 5, deaths = 105\<rparr>]"

text \<open>A frame of two rows: one with both z-scores missing, one with both beyond the
  bounds.\<close>

definition sample_frame :: "data_row list" where
  "sample_frame =
     [\<lparr>state_name = ''New York'', date = (2020, 3, 30),
       confirmed_cases_day = None, deaths_day = None,
       confirmed_cases_day_zscore = None, deaths_day_zscore = None\<rparr>,
      \<lparr>state_name = ''New York'', date = (2020, 3, 31),
       confirmed_cases_day = Some 9, deaths_day = Some 0,
       confirmed_cases_day_zscore = Some 4, deaths_day_zscore = Some (- 5)\<rparr>]"

text \<open>The five columns of the table.\<close>

definition sample_schema :: "string list" where
  "sample_schema = [''date'', ''state_name'', ''state_fips_code'', ''confirmed_cases'', ''deaths'']"

text \<open>The row of the final \<^verbatim>\<open>data2\<close> that a row \<open>r\<close> of the frame before the merge
  gives with the population \<open>p\<close>.\<close>

definition merged :: "month_row \<Rightarrow> int option \<Rightarrow> merged_row" where
  "merged r p =
     (with_population r p)
       \<lparr>highest_monthly_confirmed_cases_per_capita :=
          true_divide (highest_monthly_confirmed_cases r) p\<rparr>"


section \<open>Properties\<close>

subsection \<open>Auxiliary facts\<close>

lemma distinct_unique: "distinct (unique xs)"
  by (simp add: unique_def)

lemma set_unique: "set (unique xs) = set xs"
  by (simp add: unique_def)

lemma non_null_Nil: "non_null [] = []"
  by (simp add: non_null_def)

lemma non_null_Cons:
  "non_null (x # xs) = (case x of None \<Rightarrow> [] | Some v \<Rightarrow> [v]) @ non_null xs"
  by (simp add: non_null_def)

lemma series_sum_value_or_0: "series_sum col = sum_list (map value_or_0 col)"
  by (induction col)
    (auto simp: series_sum_def non_null_Cons non_null_Nil value_or_0_def split: option.splits)

subsection \<open>Daily deltas\<close>

lemma length_lag_window: "length (lag_window prev p) = length p"
  by (induction p arbitrary: prev) auto

lemma state_name_lag_window: "map state_name (lag_window prev p) = map state_name p"
  by (induction p arbitrary: prev) auto

lemma date_lag_window: "map date (lag_window prev p) = map date p"
  by (induction p arbitrary: prev) auto

lemma lag_window_nth:
  "i < length p \<Longrightarrow>
   lag_window prev p ! i =
     \<lparr>state_name = state_name (p ! i), date = date (p ! i),
      confirmed_cases_day =
        (if i = 0 then map_option (\<lambda>q. confirmed_cases (p ! 0) - confirmed_cases q) prev
         else Some (confirmed_cases (p ! i) - confirmed_cases (p ! (i - 1)))),
      deaths_day =
        (if i = 0 then map_option (\<lambda>q. deaths (p ! 0) - deaths q) prev
         else Some (deaths (p ! i) - deaths (p ! (i - 1))))\<rparr>"
proof (induction p arbitrary: prev i)
  case Nil
  then show ?case by simp
next
  case (Cons r rs)
  show ?case
  proof (cases i)
    case 0
    then show ?thesis by simp
  next
    case (Suc j)
    with Cons.prems have "j < length rs" by simp
    from Cons.IH[OF this, of "Some r"] Suc show ?thesis
      by (cases j) simp_all
  qed
qed

lemma defined_lag_window:
  "length (non_null (map confirmed_cases_day (lag_window prev p))) =
     (if prev = None then length p - 1 else length p)
   \<and> length (non_null (map deaths_day (lag_window prev p))) =
     (if prev = None then length p - 1 else length p)"
proof (induction p arbitrary: prev)
  case Nil
  then show ?case by (simp add: non_null_Nil)
next
  case (Cons r rs)
  from Cons[of "Some r"] show ?case
    by (cases prev) (simp_all add: non_null_Cons)
qed

lemma partition_by_state_names:
  "r \<in> set (partition_by_state s t) \<Longrightarrow> state_name r = s"
  by (simp add: partition_by_state_def)

lemma filter_lag_window_partition:
  "filter (\<lambda>r. state_name r = s) (lag_window None (partition_by_state s' t)) =
     (if s' = s then lag_window None (partition_by_state s' t) else [])"
proof -
  have "\<forall>r \<in> set (lag_window None (partition_by_state s' t)). state_name r = s'"
  proof
    fix r assume "r \<in> set (lag_window None (partition_by_state s' t))"
    then have "state_name r \<in> set (map state_name (lag_window None (partition_by_state s' t)))"
      by (metis image_eqI set_map)
    then have "state_name r \<in> state_name ` set (partition_by_state s' t)"
      by (simp add: state_name_lag_window)
    then show "state_name r = s'"
      using partition_by_state_names by auto
  qed
  then show ?thesis
    by (auto simp: filter_empty_conv intro!: filter_True)
qed

lemma concat_map_single:
  "distinct ss \<Longrightarrow>
   concat (map (\<lambda>x. if x = s then f x else []) ss) = (if s \<in> set ss then f s else [])"
  by (induction ss) auto

lemma partition_by_state_absent:
  "s \<notin> state_name ` set t \<Longrightarrow> partition_by_state s t = []"
proof -
  assume "s \<notin> state_name ` set t"
  then have "filter (\<lambda>r. state_name r = s) t = []"
    by (auto simp: filter_empty_conv)
  then show ?thesis
    by (simp add: partition_by_state_def)
qed

lemma us_states_day_partition:
  "filter (\<lambda>r. state_name r = s) (us_states_day t) = lag_window None (partition_by_state s t)"
proof -
  have "filter (\<lambda>r. state_name r = s) (us_states_day t) =
        concat (map (\<lambda>s'. if s' = s then lag_window None (partition_by_state s' t) else [])
                    (unique (map state_name t)))"
    by (simp add: us_states_day_def filter_concat comp_def filter_lag_window_partition)
  also have "\<dots> = (if s \<in> set (unique (map state_name t))
                    then lag_window None (partition_by_state s t) else [])"
    by (rule concat_map_single) (rule distinct_unique)
  also have "\<dots> = lag_window None (partition_by_state s t)"
    by (auto simp: set_unique partition_by_state_absent)
  finally show ?thesis .
qed

lemma sample_partition:
  "partition_by_state ''New York'' sample_table =
     [\<lparr>state_name = ''New York'', date = (2020, 3, 30), confirmed_cases = 5, deaths = 100\<rparr>,
      \<lparr>state_name = ''New York'', date = (2020, 3, 31), confirmed_cases = 5, deaths = 105\<rparr>,
      \<lparr>state_name = ''New York'', date = (2020, 4, 1), confirmed_cases = 7, deaths = 103\<rparr>,
      \<lparr>state_name = ''New York'', date = (2020, 4, 2), confirmed_cases = 11, deaths = 110\<rparr>]"
  by (simp add: partition_by_state_def sample_table_def)

text \<open>
  Claim C4. For every state \<open>s\<close>, let \<open>p\<close> be its daily records ordered by date and
  \<open>rows\<close> the rows of \<open>s\<close> in \<^verbatim>\<open>us_states_day\<close>. There is one row per daily record, in
  the same order; the row of the first date carries a missing delta (it is present, and
  its delta is not zero), every later row carries cumulative[d] - cumulative[d-1],
  which may be negative, and the number of defined deltas is the number of daily records
  minus one.
\<close>

theorem daily_deltas:
  fixes t :: "us_states_row list" and s :: string
  defines "p \<equiv> partition_by_state s t"
  defines "rows \<equiv> filter (\<lambda>r. state_name r = s) (us_states_day t)"
  shows "mset p = mset (filter (\<lambda>r. state_name r = s) t) \<and> sorted (map date p)
    \<and> length rows = length p
    \<and> (\<forall>i<length p. date (rows ! i) = date (p ! i)
          \<and> confirmed_cases_day (rows ! i) =
              (if i = 0 then None
               else Some (confirmed_cases (p ! i) - confirmed_cases (p ! (i - 1))))
          \<and> deaths_day (rows ! i) =
              (if i = 0 then None else Some (deaths (p ! i) - deaths (p ! (i - 1)))))
    \<and> length (non_null (map confirmed_cases_day rows)) = length p - 1
    \<and> length (non_null (map deaths_day rows)) = length p - 1"
proof -
  have rows: "rows = lag_window None p"
    unfolding rows_def p_def by (rule us_states_day_partition)
  have a: "mset p = mset (filter (\<lambda>r. state_name r = s) t)" "sorted (map date p)"
    by (simp_all add: p_def partition_by_state_def)
  have b: "length rows = length p"
    by (simp add: rows length_lag_window)
  have c: "\<forall>i<length p. date (rows ! i) = date (p ! i)
          \<and> confirmed_cases_day (rows ! i) =
              (if i = 0 then None
               else Some (confirmed_cases (p ! i) - confirmed_cases (p ! (i - 1))))
          \<and> deaths_day (rows ! i) =
              (if i = 0 then None else Some (deaths (p ! i) - deaths (p ! (i - 1))))"
    by (simp add: rows lag_window_nth)
  have d: "length (non_null (map confirmed_cases_day rows)) = length p - 1"
    "length (non_null (map deaths_day rows)) = length p - 1"
    using defined_lag_window[of None p] by (simp_all add: rows)
  from a b c d show ?thesis by blast
qed

text \<open>On the sample table: the third day of New York, where the deaths were corrected
  downwards from 105 to 103, has the delta -2.\<close>

theorem daily_deltas_witness:
  "(2::nat) < length (partition_by_state ''New York'' sample_table)
   \<and> deaths_day
       (filter (\<lambda>r. state_name r = ''New York'') (us_states_day sample_table) ! 2) = Some (- 2)"
proof -
  have len: "(2::nat) < length (partition_by_state ''New York'' sample_table)"
    by (simp add: sample_partition)
  from daily_deltas[of "''New York''" sample_table] len
  have "deaths_day
          (filter (\<lambda>r. state_name r = ''New York'') (us_states_day sample_table) ! 2) =
        (if (2::nat) = 0 then None
         else Some (deaths (partition_by_state ''New York'' sample_table ! 2)
                    - deaths (partition_by_state ''New York'' sample_table ! (2 - 1))))"
    by blast
  then show ?thesis
    using len by (simp add: sample_partition)
qed

subsection \<open>Z-scores\<close>

lemma zscore_total: "zscore v col = Inr (sample_zscore v (non_null col))"
  by (auto simp: zscore_def sql_divide_def sql_minus_def AVG_def STDDEV_def NULLIF_def
      sample_zscore_def sample_stddev_def mean_def Let_def split: option.splits)

lemma select_row_total: "select_row cte r = Inr (zscore_row cte r)"
  by (simp add: select_row_def zscore_total zscore_row_def Let_def)

lemma select_rows_total: "select_rows cte rs = Inr (map (zscore_row cte) rs)"
  by (induction rs) (simp_all add: select_row_total)

lemma query_total:
  "query t = Inr (sort_key date (map (zscore_row (us_states_day t)) (us_states_day t)))"
  by (simp add: query_def select_rows_total)

lemma zscore_row_fields:
  "state_name (zscore_row cte r) = state_name r" "date (zscore_row cte r) = date r"
  "confirmed_cases_day (zscore_row cte r) = confirmed_cases_day r"
  "deaths_day (zscore_row cte r) = deaths_day r"
  by (simp_all add: zscore_row_def)

lemma sorted_partition_dates: "sorted (map date (partition_by_state s t))"
  by (simp add: partition_by_state_def)

lemma query_rows_of_state:
  "filter (\<lambda>r. state_name r = s) (the_rows (query t)) =
     map (zscore_row (us_states_day t)) (filter (\<lambda>r. state_name r = s) (us_states_day t))"
proof -
  let ?cte = "us_states_day t"
  let ?w = "filter (\<lambda>r. state_name r = s) ?cte"
  have "filter (\<lambda>r. state_name r = s) (the_rows (query t)) =
        sort_key date (filter (\<lambda>r. state_name r = s) (map (zscore_row ?cte) ?cte))"
    by (simp add: query_total the_rows_def filter_sort)
  also have "filter (\<lambda>r. state_name r = s) (map (zscore_row ?cte) ?cte) = map (zscore_row ?cte) ?w"
    by (simp add: filter_map comp_def zscore_row_fields)
  also have "sort_key date (map (zscore_row ?cte) ?w) = map (zscore_row ?cte) ?w"
  proof (rule sort_key_id_if_sorted)
    have "map date (map (zscore_row ?cte) ?w) = map date ?w"
      by (simp add: comp_def zscore_row_fields)
    also have "\<dots> = map date (partition_by_state s t)"
      by (simp add: us_states_day_partition date_lag_window)
    finally show "sorted (map date (map (zscore_row ?cte) ?w))"
      by (simp add: sorted_partition_dates)
  qed
  finally show ?thesis .
qed

lemma query_deltas_of_state:
  "map confirmed_cases_day (filter (\<lambda>r. state_name r = s) (the_rows (query t))) =
     map confirmed_cases_day (filter (\<lambda>r. state_name r = s) (us_states_day t))"
  "map deaths_day (filter (\<lambda>r. state_name r = s) (the_rows (query t))) =
     map deaths_day (filter (\<lambda>r. state_name r = s) (us_states_day t))"
  by (simp_all add: query_rows_of_state comp_def zscore_row_fields)

lemma query_row_origin:
  assumes "r \<in> set (the_rows (query t))"
  shows "\<exists>r0 \<in> set (us_states_day t). r = zscore_row (us_states_day t) r0"
  using assms by (auto simp: query_total the_rows_def)

text \<open>
  Claim C3, as the code has it. The query never fails, and in its result the z-score of
  a row is \<open>(value - \<mu>) / \<sigma>\<close> with \<open>\<mu>\<close> the mean and \<open>\<sigma>\<close> the sample standard
  deviation (divisor \<open>n - 1\<close>) of the defined deltas of the row's state over all its
  dates; it is missing when the delta is missing, when the state has fewer than two
  defined deltas, and when \<open>\<sigma> = 0\<close>. Cases and deaths alike.
\<close>

theorem zscore_sample:
  "\<exists>q. query t = Inr q \<and>
     (\<forall>r \<in> set q.
        confirmed_cases_day_zscore r =
          sample_zscore (confirmed_cases_day r)
            (non_null (map confirmed_cases_day (filter (\<lambda>x. state_name x = state_name r) q)))
        \<and> deaths_day_zscore r =
          sample_zscore (deaths_day r)
            (non_null (map deaths_day (filter (\<lambda>x. state_name x = state_name r) q))))"
proof -
  let ?q = "the_rows (query t)"
  have q: "query t = Inr ?q"
    by (simp add: query_total the_rows_def)
  have "confirmed_cases_day_zscore r =
          sample_zscore (confirmed_cases_day r)
            (non_null (map confirmed_cases_day (filter (\<lambda>x. state_name x = state_name r) ?q)))
        \<and> deaths_day_zscore r =
          sample_zscore (deaths_day r)
            (non_null (map deaths_day (filter (\<lambda>x. state_name x = state_name r) ?q)))"
    if "r \<in> set ?q" for r
  proof -
    from query_row_origin[OF that] obtain r0
      where r: "r = zscore_row (us_states_day t) r0" by blast
    show ?thesis
      unfolding query_deltas_of_state
      by (simp add: r zscore_row_def)
  qed
  with q show ?thesis by blast
qed


lemma sample_cte_ny:
  "filter (\<lambda>r. state_name r = ''New York'') (us_states_day sample_table) =
     [\<lparr>state_name = ''New York'', date = (2020, 3, 30),
       confirmed_cases_day = None, deaths_day = None\<rparr>,
      \<lparr>state_name = ''New York'', date = (2020, 3, 31),
       confirmed_cases_day = Some 0, deaths_day = Some 5\<rparr>,
      \<lparr>state_name = ''New York'', date = (2020, 4, 1),
       confirmed_cases_day = Some 2, deaths_day = Some (- 2)\<rparr>,
      \<lparr>state_name = ''New York'', date = (2020, 4, 2),
       confirmed_cases_day = Some 4, deaths_day = Some 7\<rparr>]"
  by (simp add: us_states_day_partition sample_partition)

lemma sample_ny_cases: "mean [0, 2, 4] = 2" "sample_stddev [0, 2, 4] = 2"
  by (simp_all add: mean_def sample_stddev_def)

lemma sample_query_ny_last:
  "confirmed_cases_day
     (filter (\<lambda>r. state_name r = ''New York'') (the_rows (query sample_table)) ! 3) = Some 4"
  "confirmed_cases_day_zscore
     (filter (\<lambda>r. state_name r = ''New York'') (the_rows (query sample_table)) ! 3) = Some 1"
  "non_null (map confirmed_cases_day
     (filter (\<lambda>r. state_name r = ''New York'') (the_rows (query sample_table)))) = [0, 2, 4]"
  by (simp_all add: query_rows_of_state sample_cte_ny zscore_row_def non_null_def
      sample_zscore_def sample_ny_cases)

lemma population_stddev_sample: "population_stddev [0, 2, 4] \<noteq> 2"
proof
  assume "population_stddev [0, 2, 4] = 2"
  then have "sqrt (8 / 3) = sqrt 4"
    by (simp add: population_stddev_def mean_def)
  then show False
    by (simp only: real_sqrt_eq_iff)
qed

lemma sample_query_ny_length:
  "length (filter (\<lambda>r. state_name r = ''New York'') (the_rows (query sample_table))) = 4"
  by (simp add: query_rows_of_state sample_cte_ny)

lemma sample_query_ny_mem:
  "i < 4 \<Longrightarrow>
   filter (\<lambda>r. state_name r = ''New York'') (the_rows (query sample_table)) ! i
     \<in> set (the_rows (query sample_table))"
proof -
  assume "i < 4"
  then have "filter (\<lambda>r. state_name r = ''New York'') (the_rows (query sample_table)) ! i
     \<in> set (filter (\<lambda>r. state_name r = ''New York'') (the_rows (query sample_table)))"
    by (intro nth_mem) (simp add: sample_query_ny_length)
  then show ?thesis
    by (rule subsetD[OF filter_is_subset])
qed

lemma sample_query_ny_third:
  "state_name
     (filter (\<lambda>r. state_name r = ''New York'') (the_rows (query sample_table)) ! 2) = ''New York''"
  "deaths_day
     (filter (\<lambda>r. state_name r = ''New York'') (the_rows (query sample_table)) ! 2) = Some (- 2)"
  by (simp_all add: query_rows_of_state sample_cte_ny zscore_row_def)

lemma sample_query_ny_fourth:
  "state_name
     (filter (\<lambda>r. state_name r = ''New York'') (the_rows (query sample_table)) ! 3) = ''New York''"
  by (simp add: query_rows_of_state sample_cte_ny zscore_row_def)

lemma sample_cte_ny_deaths:
  "non_null (map deaths_day
     (filter (\<lambda>x. state_name x = ''New York'') (us_states_day sample_table))) = [5, - 2, 7]"
  by (simp add: sample_cte_ny non_null_def)


text \<open>On the sample table: the last day of New York, delta 4 among 0, 2, 4, has the
  z-score \<open>(4 - 2) / 2 = 1\<close>.\<close>

theorem zscore_sample_witness:
  "filter (\<lambda>r. state_name r = ''New York'') (the_rows (query sample_table)) ! 3
     \<in> set (the_rows (query sample_table))
   \<and> confirmed_cases_day_zscore
       (filter (\<lambda>r. state_name r = ''New York'') (the_rows (query sample_table)) ! 3) =
     sample_zscore (Some 4) [0, 2, 4]
   \<and> sample_zscore (Some 4) [0, 2, 4] = Some 1"
proof -
  let ?q = "the_rows (query sample_table)"
  let ?r = "filter (\<lambda>r. state_name r = ''New York'') ?q ! 3"
  from zscore_sample[of sample_table] obtain q where q: "query sample_table = Inr q"
    and z: "\<forall>r \<in> set q.
        confirmed_cases_day_zscore r =
          sample_zscore (confirmed_cases_day r)
            (non_null (map confirmed_cases_day (filter (\<lambda>x. state_name x = state_name r) q)))
        \<and> deaths_day_zscore r =
          sample_zscore (deaths_day r)
            (non_null (map deaths_day (filter (\<lambda>x. state_name x = state_name r) q)))"
    by blast
  from q have rows: "q = ?q"
    by (simp add: the_rows_def)
  have mem: "?r \<in> set ?q"
    by (rule sample_query_ny_mem) simp
  from z have z': "\<forall>r \<in> set ?q.
        confirmed_cases_day_zscore r =
          sample_zscore (confirmed_cases_day r)
            (non_null (map confirmed_cases_day (filter (\<lambda>x. state_name x = state_name r) ?q)))
        \<and> deaths_day_zscore r =
          sample_zscore (deaths_day r)
            (non_null (map deaths_day (filter (\<lambda>x. state_name x = state_name r) ?q)))"
    by (simp only: rows)
  from bspec[OF z' mem] have "confirmed_cases_day_zscore ?r =
      sample_zscore (confirmed_cases_day ?r)
        (non_null (map confirmed_cases_day (filter (\<lambda>x. state_name x = state_name ?r) ?q)))"
    by (rule conjunct1)
  then have a: "confirmed_cases_day_zscore ?r = sample_zscore (Some 4) [0, 2, 4]"
    by (simp only: sample_query_ny_fourth sample_query_ny_last)
  have b: "sample_zscore (Some 4) [0, 2, 4] = Some 1"
    by (simp add: sample_zscore_def sample_ny_cases)
  from mem a b show ?thesis
    by (intro conjI)
qed

text \<open>
  Claim C3 as stated fails: on the sample table the last day of New York has the delta
  4 among the defined deltas 0, 2, 4, the population standard deviation of these is not
  zero, and the z-score of the row is not \<open>(4 - \<mu>) / \<sigma>\<close> for that \<open>\<sigma>\<close>.
\<close>

theorem zscore_population_counterexample:
  "confirmed_cases_day
     (filter (\<lambda>r. state_name r = ''New York'') (the_rows (query sample_table)) ! 3) = Some 4
   \<and> non_null (map confirmed_cases_day
       (filter (\<lambda>r. state_name r = ''New York'') (the_rows (query sample_table)))) = [0, 2, 4]
   \<and> population_stddev [0, 2, 4] \<noteq> 0
   \<and> confirmed_cases_day_zscore
       (filter (\<lambda>r. state_name r = ''New York'') (the_rows (query sample_table)) ! 3)
     \<noteq> Some ((real_of_int 4 - mean [0, 2, 4]) / population_stddev [0, 2, 4])"
proof -
  have nz: "population_stddev [0, 2, 4] \<noteq> 0"
    by (simp add: population_stddev_def mean_def)
  have "(real_of_int 4 - mean [0, 2, 4]) / population_stddev [0, 2, 4] \<noteq> 1"
    using population_stddev_sample nz by (simp add: sample_ny_cases field_simps)
  with nz show ?thesis
    by (simp add: sample_query_ny_last)
qed

subsection \<open>Cleaning\<close>

text \<open>
  Claim C7. Clipping negative deltas to zero is idempotent: on every series of deltas,
  missing values included, clipping twice gives the same series as clipping once.
\<close>

theorem clip_idempotent: "clip 0 (clip 0 x) = clip 0 x"
  by (simp add: clip_def option.map_comp comp_def)

lemma map2_update: "map2 f xs (map g xs) = map (\<lambda>x. f x (g x)) xs"
  by (induction xs) auto

lemma clean_rows: "clean df = map clean_row df"
proof -
  have c: "clip_confirmed_cases_day df =
      map (\<lambda>r. r\<lparr>confirmed_cases_day := map_option (max 0) (confirmed_cases_day r)\<rparr>) df"
    for df
    by (simp add: clip_confirmed_cases_day_def clip_def map2_update comp_def)
  have d: "clip_deaths_day df =
      map (\<lambda>r. r\<lparr>deaths_day := map_option (max 0) (deaths_day r)\<rparr>) df" for df
    by (simp add: clip_deaths_day_def clip_def map2_update comp_def)
  show ?thesis
    by (simp add: clean_def c d clean_row_def comp_def)
qed

lemma clean_row_fields:
  "state_name (clean_row r) = state_name r" "date (clean_row r) = date r"
  "confirmed_cases_day_zscore (clean_row r) = confirmed_cases_day_zscore r"
  "deaths_day_zscore (clean_row r) = deaths_day_zscore r"
  "confirmed_cases_day (clean_row r) = map_option (max 0) (confirmed_cases_day r)"
  "deaths_day (clean_row r) = map_option (max 0) (deaths_day r)"
  by (simp_all add: clean_row_def)

lemma insort_key_map:
  "insort_key f (g x) (map g xs) = map g (insort_key (\<lambda>y. f (g y)) x xs)"
  by (induction xs) auto

lemma sort_key_map: "sort_key f (map g xs) = map g (sort_key (\<lambda>y. f (g y)) xs)"
  by (induction xs) (auto simp: insort_key_map)

lemma ny_data_clean: "ny_data (clean df) = clean (ny_data df)"
  by (simp add: ny_data_def clean_rows filter_map comp_def clean_row_fields sort_key_map)

subsection \<open>Monthly sums\<close>

lemma sum_list_indicator:
  "distinct ks \<Longrightarrow>
   sum_list (map (\<lambda>k. if k = a then (v::int) else 0) ks) = (if a \<in> set ks then v else 0)"
  by (induction ks) auto

lemma sum_groups:
  "distinct ks \<Longrightarrow> key ` set xs \<subseteq> set ks \<Longrightarrow>
   sum_list (map (\<lambda>k. sum_list (map f (filter (\<lambda>x. key x = k) xs))) ks) =
     (sum_list (map f xs) :: int)"
proof (induction xs)
  case Nil
  then show ?case by simp
next
  case (Cons x xs)
  have "sum_list (map (\<lambda>k. sum_list (map f (filter (\<lambda>x. key x = k) (x # xs)))) ks)
      = sum_list (map (\<lambda>k. (if k = key x then f x else 0)
                            + sum_list (map f (filter (\<lambda>x. key x = k) xs))) ks)"
    by (rule arg_cong[where f=sum_list], rule map_cong) auto
  also have "\<dots> = sum_list (map (\<lambda>k. if k = key x then f x else 0) ks)
                 + sum_list (map (\<lambda>k. sum_list (map f (filter (\<lambda>x. key x = k) xs))) ks)"
    by (simp add: sum_list_addf)
  also have "\<dots> = f x + sum_list (map f xs)"
    using Cons by (simp add: sum_list_indicator)
  finally show ?case by simp
qed

lemma sum_list_sort_key:
  "sum_list (map f (sort_key k xs)) = (sum_list (map f xs) :: int)"
proof -
  have "mset (map f (sort_key k xs)) = mset (map f xs)"
    by simp
  then have "sum_mset (mset (map f (sort_key k xs))) = sum_mset (mset (map f xs))"
    by (rule arg_cong)
  then show ?thesis
    by (simp only: sum_mset_sum_list)
qed

lemma monthly_deaths_explicit:
  "monthly_deaths ny =
     map (\<lambda>m. (m, sum_list (map (\<lambda>r. case deaths_day r of None \<Rightarrow> 0 | Some d \<Rightarrow> d)
                       (filter (\<lambda>r. fst (date r) = fst m \<and> fst (snd (date r)) = snd m) ny))))
         (sort (remdups (map (\<lambda>r. (fst (date r), fst (snd (date r)))) ny)))"
proof -
  have k: "(to_period_M (date r) = m) = (fst (date r) = fst m \<and> fst (snd (date r)) = snd m)"
    for r :: data_row and m
    by (auto simp: to_period_M_def prod_eq_iff)
  have v: "value_or_0 = (\<lambda>v. case v of None \<Rightarrow> 0 | Some d \<Rightarrow> d)"
    by (rule ext) (simp add: value_or_0_def)
  show ?thesis
    by (simp add: monthly_deaths_def series_sum_value_or_0 k to_period_M_def v comp_def)
qed

lemma monthly_deaths_entry:
  assumes "((y, mo), v) \<in> set (monthly_deaths ny)"
  shows "v = sum_list (map (\<lambda>r. case deaths_day r of None \<Rightarrow> 0 | Some d \<Rightarrow> d)
                 (filter (\<lambda>r. fst (date r) = y \<and> fst (snd (date r)) = mo) ny))"
  using assms unfolding monthly_deaths_explicit by auto

lemma script_results:
  "script tb t pop_per_state = Inl AssertionError
   \<or> (\<exists>res. script tb t pop_per_state = Inr res
         \<and> res_data res = clean (the_rows (query t))
         \<and> res_ny_data res = ny_data (clean (the_rows (query t)))
         \<and> res_monthly_deaths res = monthly_deaths (ny_data (clean (the_rows (query t)))))"
  by (simp add: script_def query_total the_rows_def Let_def)

lemma sample_ny_data:
  "ny_data (clean (the_rows (query sample_table))) =
     map (\<lambda>r. clean_row (zscore_row (us_states_day sample_table) r))
       [\<lparr>state_name = ''New York'', date = (2020, 3, 30),
         confirmed_cases_day = None, deaths_day = None\<rparr>,
        \<lparr>state_name = ''New York'', date = (2020, 3, 31),
         confirmed_cases_day = Some 0, deaths_day = Some 5\<rparr>,
        \<lparr>state_name = ''New York'', date = (2020, 4, 1),
         confirmed_cases_day = Some 2, deaths_day = Some (- 2)\<rparr>,
        \<lparr>state_name = ''New York'', date = (2020, 4, 2),
         confirmed_cases_day = Some 4, deaths_day = Some 7\<rparr>]"
proof -
  let ?cte = "us_states_day sample_table"
  let ?w = "filter (\<lambda>r. state_name r = ''New York'') ?cte"
  have "ny_data (the_rows (query sample_table)) = sort_key date (map (zscore_row ?cte) ?w)"
    by (simp add: ny_data_def query_rows_of_state)
  also have "\<dots> = map (zscore_row ?cte) ?w"
    by (rule sort_key_id_if_sorted)
      (simp add: comp_def zscore_row_fields us_states_day_partition date_lag_window
        sorted_partition_dates)
  finally have raw: "ny_data (the_rows (query sample_table)) = map (zscore_row ?cte) ?w" .
  have "ny_data (clean (the_rows (query sample_table))) =
        clean (ny_data (the_rows (query sample_table)))"
    by (rule ny_data_clean)
  also have "\<dots> = map clean_row (ny_data (the_rows (query sample_table)))"
    by (rule clean_rows)
  also have "\<dots> = map clean_row (map (zscore_row ?cte) ?w)"
    by (simp only: raw)
  also have "\<dots> = map (\<lambda>r. clean_row (zscore_row ?cte r)) ?w"
    by (simp add: comp_def)
  finally show ?thesis
    by (simp only: sample_cte_ny)
qed

lemma sample_monthly_deaths:
  "monthly_deaths (ny_data (clean (the_rows (query sample_table)))) =
     [((2020, 3), 5), ((2020, 4), 7)]"
  unfolding sample_ny_data monthly_deaths_explicit
  by (simp add: clean_row_fields zscore_row_fields)

text \<open>
  Claim C6. The monthly table has one row per calendar month, year and month of the
  date, that occurs among the rows of the state, months ascending; the aggregate of a
  month is the sum of the daily death deltas of the rows of that year and month, a
  missing delta counting as 0; and the monthly aggregates add up to the sum of all
  daily death deltas of the state. This holds of every frame; the frame the script
  aggregates is the New York slice of the cleaned query result.
\<close>

theorem monthly_deaths_sums:
  "(\<forall>y mo v. ((y, mo), v) \<in> set (monthly_deaths ny) \<longrightarrow>
       v = sum_list (map (\<lambda>r. case deaths_day r of None \<Rightarrow> 0 | Some d \<Rightarrow> d)
                 (filter (\<lambda>r. fst (date r) = y \<and> fst (snd (date r)) = mo) ny)))
   \<and> set (map fst (monthly_deaths ny)) = (\<lambda>r. (fst (date r), fst (snd (date r)))) ` set ny
   \<and> sorted (map fst (monthly_deaths ny)) \<and> distinct (map fst (monthly_deaths ny))
   \<and> sum_list (map snd (monthly_deaths ny)) =
       sum_list (map (\<lambda>r. case deaths_day r of None \<Rightarrow> 0 | Some d \<Rightarrow> d) ny)
   \<and> (script tb t pop_per_state = Inl AssertionError
       \<or> (\<exists>res. script tb t pop_per_state = Inr res
             \<and> res_monthly_deaths res =
                 monthly_deaths (ny_data (clean (the_rows (query t))))))"
proof -
  let ?key = "\<lambda>r::data_row. (fst (date r), fst (snd (date r)))"
  let ?f = "\<lambda>r::data_row. case deaths_day r of None \<Rightarrow> (0::int) | Some d \<Rightarrow> d"
  let ?ks = "sort (remdups (map ?key ny))"
  have fst_eq: "map fst (monthly_deaths ny) = ?ks"
    unfolding monthly_deaths_explicit by (simp add: comp_def)
  have snd_eq: "map snd (monthly_deaths ny) =
      map (\<lambda>m. sum_list (map ?f (filter (\<lambda>r. ?key r = m) ny))) ?ks"
    unfolding monthly_deaths_explicit by (simp add: comp_def prod_eq_iff)
  have d: "distinct ?ks" by simp
  have s: "?key ` set ny \<subseteq> set ?ks" by simp
  have total: "sum_list (map snd (monthly_deaths ny)) = sum_list (map ?f ny)"
    unfolding snd_eq using sum_groups[OF d s, of ?f] by simp
  have entries: "\<forall>y mo v. ((y, mo), v) \<in> set (monthly_deaths ny) \<longrightarrow>
       v = sum_list (map ?f (filter (\<lambda>r. fst (date r) = y \<and> fst (snd (date r)) = mo) ny))"
    using monthly_deaths_entry by blast
  have keys: "set (map fst (monthly_deaths ny)) = ?key ` set ny"
    "sorted (map fst (monthly_deaths ny))" "distinct (map fst (monthly_deaths ny))"
    by (simp_all add: fst_eq)
  have scr: "script tb t pop_per_state = Inl AssertionError
       \<or> (\<exists>res. script tb t pop_per_state = Inr res
             \<and> res_monthly_deaths res =
                 monthly_deaths (ny_data (clean (the_rows (query t)))))"
    using script_results[of tb t pop_per_state] by blast
  from entries keys total scr show ?thesis
    by (intro conjI)
qed

text \<open>On the sample table: the cleaned New York deltas are missing, 5, 0, 7 over the end
  of March and the start of April, so the monthly table is 5 for March and 7 for
  April, and the 7 is the sum over the rows of year 2020 and month 4.\<close>

theorem monthly_deaths_sums_witness:
  "((2020, 4), 7) \<in> set (monthly_deaths (ny_data (clean (the_rows (query sample_table)))))
   \<and> 7 = sum_list (map (\<lambda>r. case deaths_day r of None \<Rightarrow> 0 | Some d \<Rightarrow> d)
             (filter (\<lambda>r. fst (date r) = 2020 \<and> fst (snd (date r)) = 4)
                (ny_data (clean (the_rows (query sample_table))))))
   \<and> monthly_deaths (ny_data (clean (the_rows (query sample_table)))) =
       [((2020, 3), 5), ((2020, 4), 7)]"
proof -
  let ?ny = "ny_data (clean (the_rows (query sample_table)))"
  have mem: "((2020, 4), 7) \<in> set (monthly_deaths ?ny)"
    by (simp add: sample_monthly_deaths)
  from monthly_deaths_sums[of ?ny]
  have "\<forall>y mo v. ((y, mo), v) \<in> set (monthly_deaths ?ny) \<longrightarrow>
       v = sum_list (map (\<lambda>r. case deaths_day r of None \<Rightarrow> 0 | Some d \<Rightarrow> d)
                 (filter (\<lambda>r. fst (date r) = y \<and> fst (snd (date r)) = mo) ?ny))"
    by (rule conjunct1)
  then have "((2020, 4), 7) \<in> set (monthly_deaths ?ny) \<longrightarrow>
       7 = sum_list (map (\<lambda>r. case deaths_day r of None \<Rightarrow> 0 | Some d \<Rightarrow> d)
                 (filter (\<lambda>r. fst (date r) = 2020 \<and> fst (snd (date r)) = 4) ?ny))"
    by (elim allE)
  from this mem have "7 = sum_list (map (\<lambda>r. case deaths_day r of None \<Rightarrow> 0 | Some d \<Rightarrow> d)
                 (filter (\<lambda>r. fst (date r) = 2020 \<and> fst (snd (date r)) = 4) ?ny))"
    by (rule mp)
  with mem sample_monthly_deaths show ?thesis
    by (intro conjI)
qed

subsection \<open>Outliers\<close>

text \<open>
  Claim C5. The two outlier frames are exactly the rows of the input, whole and in
  order, whose case z-score (respectively death z-score) is above 3 or below -3; and
  each frame is independent of the other z-score column: replacing that column by
  anything leaves the same rows flagged.
\<close>

theorem outliers_exact:
  "outliers ny =
     filter (\<lambda>r. \<exists>z. confirmed_cases_day_zscore r = Some z \<and> (z > 3 \<or> z < - 3)) ny
   \<and> outliers_deaths ny =
     filter (\<lambda>r. \<exists>z. deaths_day_zscore r = Some z \<and> (z > 3 \<or> z < - 3)) ny
   \<and> outliers (map (\<lambda>r. r\<lparr>deaths_day_zscore := f r\<rparr>) ny) =
       map (\<lambda>r. r\<lparr>deaths_day_zscore := f r\<rparr>) (outliers ny)
   \<and> outliers_deaths (map (\<lambda>r. r\<lparr>confirmed_cases_day_zscore := g r\<rparr>) ny) =
       map (\<lambda>r. r\<lparr>confirmed_cases_day_zscore := g r\<rparr>) (outliers_deaths ny)"
  by (auto simp: outliers_def outliers_deaths_def series_gt_def series_lt_def upper_bound_def
      lower_bound_def filter_map comp_def split: option.splits intro!: filter_cong)

text \<open>
  Claim C9. A row whose case z-score is missing is in no case-outlier frame, and a row
  whose death z-score is missing is in no death-outlier frame: both comparisons are
  false on a missing value.
\<close>

theorem missing_zscore_not_flagged:
  "(confirmed_cases_day_zscore r = None \<longrightarrow> r \<notin> set (outliers ny))
   \<and> (deaths_day_zscore r = None \<longrightarrow> r \<notin> set (outliers_deaths ny))"
  by (simp add: outliers_def outliers_deaths_def series_gt_def series_lt_def)

text \<open>On the sample frame: the row without z-scores is in neither frame, the other row
  is in both.\<close>

theorem missing_zscore_not_flagged_witness:
  "confirmed_cases_day_zscore (sample_frame ! 0) = None
   \<and> sample_frame ! 0 \<notin> set (outliers sample_frame)
   \<and> deaths_day_zscore (sample_frame ! 0) = None
   \<and> sample_frame ! 0 \<notin> set (outliers_deaths sample_frame)
   \<and> outliers sample_frame = [sample_frame ! 1]
   \<and> outliers_deaths sample_frame = [sample_frame ! 1]"
proof -
  have c: "confirmed_cases_day_zscore (sample_frame ! 0) = None"
    and d: "deaths_day_zscore (sample_frame ! 0) = None"
    by (simp_all add: sample_frame_def)
  note w = missing_zscore_not_flagged[of "sample_frame ! 0" sample_frame]
  from w c have c': "sample_frame ! 0 \<notin> set (outliers sample_frame)"
    by (rule conjunct1[THEN mp])
  from w d have d': "sample_frame ! 0 \<notin> set (outliers_deaths sample_frame)"
    by (rule conjunct2[THEN mp])
  have o: "outliers sample_frame = [sample_frame ! 1]"
    "outliers_deaths sample_frame = [sample_frame ! 1]"
    by (simp_all add: sample_frame_def outliers_def outliers_deaths_def series_gt_def
        series_lt_def upper_bound_def lower_bound_def)
  from c c' d d' o show ?thesis
    by (intro conjI)
qed

subsection \<open>The assertions\<close>

text \<open>
  Claim C8. If the row count of the table is not 61942 or its schema does not have 5
  columns, the script ends in an \<^verbatim>\<open>AssertionError\<close> and yields no derived table; if both
  match, the assertions pass and the script runs through and yields its tables.
\<close>

theorem script_assertions:
  "(num_rows tb \<noteq> 61942 \<or> length (schema tb) \<noteq> 5 \<longrightarrow>
      script tb t pop_per_state = Inl AssertionError)
   \<and> (num_rows tb = 61942 \<and> length (schema tb) = 5 \<longrightarrow>
      (\<exists>res. script tb t pop_per_state = Inr res
         \<and> res_data res = clean (the_rows (query t))
         \<and> res_data2 res = data2 t pop_per_state))"
  by (simp add: script_def query_total the_rows_def Let_def)

text \<open>A table of 61941 rows fails the first assertion; one of 61942 rows and five columns
  passes both.\<close>

theorem script_assertions_witness:
  "num_rows \<lparr>num_rows = 61941, schema = sample_schema\<rparr> \<noteq> 61942
   \<and> script \<lparr>num_rows = 61941, schema = sample_schema\<rparr> sample_table [] = Inl AssertionError
   \<and> num_rows \<lparr>num_rows = 61942, schema = sample_schema\<rparr> = 61942
   \<and> length (schema \<lparr>num_rows = 61942, schema = sample_schema\<rparr>) = 5
   \<and> \<not> isl (script \<lparr>num_rows = 61942, schema = sample_schema\<rparr> sample_table [])"
proof -
  let ?bad = "\<lparr>num_rows = 61941, schema = sample_schema\<rparr>"
  let ?ok = "\<lparr>num_rows = 61942, schema = sample_schema\<rparr>"
  have b: "num_rows ?bad \<noteq> 61942"
    by simp
  have k: "num_rows ?ok = 61942" "length (schema ?ok) = 5"
    by (simp_all add: sample_schema_def)
  from script_assertions[of ?bad sample_table "[]"] b
  have f: "script ?bad sample_table [] = Inl AssertionError"
    by auto
  from script_assertions[of ?ok sample_table "[]"] k
  have "\<exists>res. script ?ok sample_table [] = Inr res"
    by auto
  then have p: "\<not> isl (script ?ok sample_table [])"
    by auto
  from b f k p show ?thesis
    by (intro conjI)
qed

subsection \<open>The highest month of every state, per capita\<close>

lemma sample_sql_query:
  "sql_query sample_table =
     [\<lparr>state_name = ''New York'', date = (2020, 4, 1), year = 2020, month = 4,
       highest_monthly_confirmed_cases = 11\<rparr>,
      \<lparr>state_name = ''Texas'', date = (2020, 3, 30), year = 2020, month = 3,
       highest_monthly_confirmed_cases = 3\<rparr>,
      \<lparr>state_name = ''New York'', date = (2020, 3, 30), year = 2020, month = 3,
       highest_monthly_confirmed_cases = 5\<rparr>,
      \<lparr>state_name = ''New York'', date = (2020, 4, 2), year = 2020, month = 4,
       highest_monthly_confirmed_cases = 11\<rparr>,
      \<lparr>state_name = ''New York'', date = (2020, 3, 31), year = 2020, month = 3,
       highest_monthly_confirmed_cases = 5\<rparr>]"
  by (simp add: sql_query_def sample_table_def same_month_def)

lemma sample_group_keys:
  "sort (remdups (map group_key (sql_query sample_table))) =
     [(''New York'', 2020, 3), (''New York'', 2020, 4), (''Texas'', 2020, 3)]"
  by (simp add: sample_sql_query group_key_def)


lemma sample_groupby_max:
  "groupby_max (sql_query sample_table) =
     [\<lparr>state_name = ''New York'', date = (2020, 3, 31), year = 2020, month = 3,
       highest_monthly_confirmed_cases = 5\<rparr>,
      \<lparr>state_name = ''New York'', date = (2020, 4, 2), year = 2020, month = 4,
       highest_monthly_confirmed_cases = 11\<rparr>,
      \<lparr>state_name = ''Texas'', date = (2020, 3, 30), year = 2020, month = 3,
       highest_monthly_confirmed_cases = 3\<rparr>]"
  unfolding groupby_max_def sample_group_keys
  by (simp add: sample_sql_query group_key_def)

lemma sample_peaks:
  "sort_by_highest (groupby_max (sql_query sample_table)) =
     [\<lparr>state_name = ''New York'', date = (2020, 4, 2), year = 2020, month = 4,
       highest_monthly_confirmed_cases = 11\<rparr>,
      \<lparr>state_name = ''New York'', date = (2020, 3, 31), year = 2020, month = 3,
       highest_monthly_confirmed_cases = 5\<rparr>,
      \<lparr>state_name = ''Texas'', date = (2020, 3, 30), year = 2020, month = 3,
       highest_monthly_confirmed_cases = 3\<rparr>]"
  by (simp add: sample_groupby_max sort_by_highest_def)

lemma sample_data2:
  "data2 sample_table [(''New York'', 10)] =
     [\<lparr>state_name = ''New York'', date = (2020, 4, 2), year = 2020, month = 4,
       highest_monthly_confirmed_cases = 11, population = Some 10,
       highest_monthly_confirmed_cases_per_capita = Finite (11 / 10)\<rparr>,
      \<lparr>state_name = ''New York'', date = (2020, 3, 31), year = 2020, month = 3,
       highest_monthly_confirmed_cases = 5, population = Some 10,
       highest_monthly_confirmed_cases_per_capita = Finite (1 / 2)\<rparr>,
      \<lparr>state_name = ''Texas'', date = (2020, 3, 30), year = 2020, month = 3,
       highest_monthly_confirmed_cases = 3, population = None,
       highest_monthly_confirmed_cases_per_capita = NaN\<rparr>]"
  by (simp add: data2_def sample_peaks merge_left_def with_population_def per_capita_def
      true_divide_def sort_by_per_capita_def)

text \<open>
  Claim C1, on the sample table with a population of 10 for New York. The dictionary of
  lines 260 to 264 holds the all-time peak of every state, 11 for New York. The frame
  that is merged, divided and sorted is the one with a row per state and month: New
  York has two rows in it, and the row of March has the per-capita value 5 / 10, not
  11 / 10. The rows are in descending order of the per-capita value, the missing one
  last.
\<close>

theorem per_capita_rows_per_month:
  "map (\<lambda>m. (state_name m, year m, month m, highest_monthly_confirmed_cases_per_capita m))
       (data2 sample_table [(''New York'', 10)]) =
     [(''New York'', 2020, 4, Finite (11 / 10)),
      (''New York'', 2020, 3, Finite (1 / 2)),
      (''Texas'', 2020, 3, NaN)]
   \<and> states_and_highest_month (sort_by_highest (groupby_max (sql_query sample_table))) =
     [(''New York'', 11), (''Texas'', 3)]"
  by (simp add: sample_data2 sample_peaks states_and_highest_month_def unique_def)


lemma no_match:
  "filter (\<lambda>p. fst p = s) pop_per_state = [] \<longleftrightarrow> s \<notin> fst ` set pop_per_state"
  by (auto simp: filter_empty_conv)

lemma set_merge_left:
  "set (merge_left df pop_per_state) =
     (\<Union>r \<in> set df.
        if state_name r \<in> fst ` set pop_per_state
        then (\<lambda>p. with_population r (Some (snd p)))
               ` set (filter (\<lambda>p. fst p = state_name r) pop_per_state)
        else {with_population r None})"
proof -
  have "set (case filter (\<lambda>p. fst p = state_name r) pop_per_state of
               [] \<Rightarrow> [with_population r None]
             | ms \<Rightarrow> map (\<lambda>p. with_population r (Some (snd p))) ms) =
        (if state_name r \<in> fst ` set pop_per_state
         then (\<lambda>p. with_population r (Some (snd p)))
                ` set (filter (\<lambda>p. fst p = state_name r) pop_per_state)
         else {with_population r None})" for r
  proof (cases "filter (\<lambda>p. fst p = state_name r) pop_per_state")
    case Nil
    then have "state_name r \<notin> fst ` set pop_per_state"
      using no_match[of "state_name r" pop_per_state] by simp
    with Nil show ?thesis
      by simp
  next
    case (Cons x xs)
    then have "state_name r \<in> fst ` set pop_per_state"
      using no_match[of "state_name r" pop_per_state] by simp
    with Cons show ?thesis
      by simp
  qed
  then show ?thesis
    by (simp add: merge_left_def)
qed

lemma length_merge_left: "length df \<le> length (merge_left df pop_per_state)"
proof (induction df)
  case Nil
  then show ?case by (simp add: merge_left_def)
next
  case (Cons r df)
  have "1 \<le> length (case filter (\<lambda>p. fst p = state_name r) pop_per_state of
               [] \<Rightarrow> [with_population r None]
             | ms \<Rightarrow> map (\<lambda>p. with_population r (Some (snd p))) ms)"
    by (cases "filter (\<lambda>p. fst p = state_name r) pop_per_state") simp_all
  with Cons show ?case
    by (simp add: merge_left_def)
qed

lemma per_capita_with_population:
  "(with_population r p)
     \<lparr>highest_monthly_confirmed_cases_per_capita :=
        true_divide (highest_monthly_confirmed_cases (with_population r p))
          (population (with_population r p))\<rparr> = merged r p"
  by (simp add: merged_def with_population_def)

lemma set_data2:
  "set (data2 t pop_per_state) =
     (\<Union>r \<in> set (sort_by_highest (groupby_max (sql_query t))).
        if state_name r \<in> fst ` set pop_per_state
        then (\<lambda>p. merged r (Some (snd p)))
               ` set (filter (\<lambda>p. fst p = state_name r) pop_per_state)
        else {merged r None})"
proof -
  let ?f = "\<lambda>m. m\<lparr>highest_monthly_confirmed_cases_per_capita :=
                    true_divide (highest_monthly_confirmed_cases m) (population m)\<rparr>"
  have "set (data2 t pop_per_state) =
        ?f ` set (merge_left (sort_by_highest (groupby_max (sql_query t))) pop_per_state)"
    by (simp add: data2_def sort_by_per_capita_def per_capita_def)
  also have "\<dots> =
     (\<Union>r \<in> set (sort_by_highest (groupby_max (sql_query t))).
        if state_name r \<in> fst ` set pop_per_state
        then (\<lambda>p. merged r (Some (snd p)))
               ` set (filter (\<lambda>p. fst p = state_name r) pop_per_state)
        else {merged r None})"
    unfolding set_merge_left image_UN
    by (rule SUP_cong) (simp_all add: image_image per_capita_with_population if_distrib
        cong: if_cong)
  finally show ?thesis .
qed

lemma merged_fields:
  "state_name (merged r p) = state_name r" "date (merged r p) = date r"
  "year (merged r p) = year r" "month (merged r p) = month r"
  "highest_monthly_confirmed_cases (merged r p) = highest_monthly_confirmed_cases r"
  "population (merged r p) = p"
  "highest_monthly_confirmed_cases_per_capita (merged r p) =
     true_divide (highest_monthly_confirmed_cases r) p"
  by (simp_all add: merged_def with_population_def)

text \<open>
  Claim C10. Every row of the frame before the merge is in the final frame, with some
  population; a row whose state has no exact match in the population data is there
  with a missing population and a missing per-capita value; every row of the final
  frame whose state has no match has both missing; and the final frame has at least as
  many rows as the frame before the merge.
\<close>

theorem left_join_keeps_rows:
  "(\<forall>r \<in> set (sort_by_highest (groupby_max (sql_query t))).
      (\<exists>p. merged r p \<in> set (data2 t pop_per_state))
      \<and> (state_name r \<notin> fst ` set pop_per_state \<longrightarrow>
           merged r None \<in> set (data2 t pop_per_state)))
   \<and> (\<forall>m \<in> set (data2 t pop_per_state).
        state_name m \<notin> fst ` set pop_per_state \<longrightarrow>
          population m = None \<and> highest_monthly_confirmed_cases_per_capita m = NaN)
   \<and> length (sort_by_highest (groupby_max (sql_query t))) \<le> length (data2 t pop_per_state)"
proof -
  let ?peaks = "sort_by_highest (groupby_max (sql_query t))"
  have a: "(\<exists>p. merged r p \<in> set (data2 t pop_per_state))
      \<and> (state_name r \<notin> fst ` set pop_per_state \<longrightarrow>
           merged r None \<in> set (data2 t pop_per_state))" if r: "r \<in> set ?peaks" for r
  proof (cases "state_name r \<in> fst ` set pop_per_state")
    case True
    then obtain x where x: "x \<in> set pop_per_state" "fst x = state_name r"
      by auto
    then have "merged r (Some (snd x)) \<in> set (data2 t pop_per_state)"
      unfolding set_data2 using r True by (intro UN_I[of r]) auto
    with True show ?thesis by blast
  next
    case False
    then have "merged r None \<in> set (data2 t pop_per_state)"
      unfolding set_data2 using r by (intro UN_I[of r]) auto
    then show ?thesis by blast
  qed
  have b: "population m = None \<and> highest_monthly_confirmed_cases_per_capita m = NaN"
    if m: "m \<in> set (data2 t pop_per_state)" and n: "state_name m \<notin> fst ` set pop_per_state"
    for m
  proof -
    from m obtain r where r: "r \<in> set ?peaks"
      and mr: "m \<in> (if state_name r \<in> fst ` set pop_per_state
        then (\<lambda>p. merged r (Some (snd p)))
               ` set (filter (\<lambda>p. fst p = state_name r) pop_per_state)
        else {merged r None})"
      unfolding set_data2 by blast
    show ?thesis
    proof (cases "state_name r \<in> fst ` set pop_per_state")
      case True
      with mr have "state_name m = state_name r"
        by (auto simp: merged_fields)
      with n True show ?thesis by simp
    next
      case False
      with mr have "m = merged r None" by simp
      then show ?thesis
        by (simp add: merged_fields true_divide_def)
    qed
  qed
  have c: "length ?peaks \<le> length (data2 t pop_per_state)"
    by (simp add: data2_def sort_by_per_capita_def per_capita_def length_merge_left)
  from a b c show ?thesis by blast
qed


text \<open>On the sample table, with a population for New York only: the row of Texas is
  kept, with a missing per-capita value.\<close>

theorem left_join_keeps_rows_witness:
  "\<lparr>state_name = ''Texas'', date = (2020, 3, 30), year = 2020, month = 3,
    highest_monthly_confirmed_cases = 3\<rparr>
     \<in> set (sort_by_highest (groupby_max (sql_query sample_table)))
   \<and> ''Texas'' \<notin> fst ` set [(''New York'', 10 :: int)]
   \<and> merged \<lparr>state_name = ''Texas'', date = (2020, 3, 30), year = 2020, month = 3,
              highest_monthly_confirmed_cases = 3\<rparr> None
     \<in> set (data2 sample_table [(''New York'', 10)])
   \<and> highest_monthly_confirmed_cases_per_capita
       (merged \<lparr>state_name = ''Texas'', date = (2020, 3, 30), year = 2020, month = 3,
                highest_monthly_confirmed_cases = 3\<rparr> None) = NaN"
proof -
  let ?r = "\<lparr>state_name = ''Texas'', date = (2020, 3, 30), year = 2020, month = 3,
             highest_monthly_confirmed_cases = 3\<rparr>"
  let ?pop = "[(''New York'', 10 :: int)]"
  have mem: "?r \<in> set (sort_by_highest (groupby_max (sql_query sample_table)))"
    by (simp add: sample_peaks)
  have unmatched: "''Texas'' \<notin> fst ` set ?pop"
    by simp
  then have unmatched': "state_name ?r \<notin> fst ` set ?pop"
    by simp
  from left_join_keeps_rows[of sample_table ?pop]
  have "\<forall>r \<in> set (sort_by_highest (groupby_max (sql_query sample_table))).
      (\<exists>p. merged r p \<in> set (data2 sample_table ?pop))
      \<and> (state_name r \<notin> fst ` set ?pop \<longrightarrow> merged r None \<in> set (data2 sample_table ?pop))"
    by (rule conjunct1)
  from bspec[OF this mem]
  have "state_name ?r \<notin> fst ` set ?pop \<longrightarrow> merged ?r None \<in> set (data2 sample_table ?pop)"
    by (rule conjunct2)
  from this unmatched' have kept: "merged ?r None \<in> set (data2 sample_table ?pop)"
    by (rule mp)
  have nan: "highest_monthly_confirmed_cases_per_capita (merged ?r None) = NaN"
    by (simp add: merged_fields true_divide_def)
  from mem unmatched kept nan show ?thesis
    by (intro conjI)
qed

subsection \<open>Z-scores before cleaning, sums after\<close>

lemma clipped_value:
  "(case map_option (max 0) v of None \<Rightarrow> 0 | Some d \<Rightarrow> d) =
     (case v of None \<Rightarrow> (0::int) | Some d \<Rightarrow> max 0 d)"
  by (cases v) simp_all

lemma monthly_deaths_clean_entry:
  assumes "((y, mo), v) \<in> set (monthly_deaths (ny_data (clean q)))"
  shows "v = sum_list (map (\<lambda>r. case deaths_day r of None \<Rightarrow> 0 | Some d \<Rightarrow> max 0 d)
                 (filter (\<lambda>r. state_name r = ''New York''
                               \<and> fst (date r) = y \<and> fst (snd (date r)) = mo) q))"
proof -
  let ?P = "\<lambda>r::data_row. fst (date r) = y \<and> fst (snd (date r)) = mo"
  let ?f = "\<lambda>r::data_row. case deaths_day r of None \<Rightarrow> (0::int) | Some d \<Rightarrow> d"
  let ?g = "\<lambda>r::data_row. case deaths_day r of None \<Rightarrow> (0::int) | Some d \<Rightarrow> max 0 d"
  let ?ny = "filter (\<lambda>r. state_name r = ''New York'') q"
  have "ny_data (clean q) = clean (ny_data q)"
    by (rule ny_data_clean)
  then have ny: "ny_data (clean q) = map clean_row (sort_key date ?ny)"
    by (simp only: clean_rows ny_data_def)
  from assms have "v = sum_list (map ?f (filter ?P (ny_data (clean q))))"
    by (rule monthly_deaths_entry)
  also have "filter ?P (ny_data (clean q)) = map clean_row (filter ?P (sort_key date ?ny))"
    unfolding ny by (simp add: filter_map comp_def clean_row_fields)
  also have "sum_list (map ?f (map clean_row (filter ?P (sort_key date ?ny)))) =
             sum_list (map ?g (filter ?P (sort_key date ?ny)))"
    by (simp only: map_map comp_def clean_row_fields clipped_value)
  also have "filter ?P (sort_key date ?ny) = sort_key date (filter ?P ?ny)"
    by (rule filter_sort)
  also have "sum_list (map ?g (sort_key date (filter ?P ?ny))) = sum_list (map ?g (filter ?P ?ny))"
    by (rule sum_list_sort_key)
  also have "filter ?P ?ny =
      filter (\<lambda>r. state_name r = ''New York'' \<and> fst (date r) = y \<and> fst (snd (date r)) = mo) q"
    by simp
  finally show ?thesis .
qed

text \<open>
  Claim C2. The query never fails. In its result every z-score is computed from the raw
  signed deltas of the row's state in \<^verbatim>\<open>us_states_day\<close>. Cleaning leaves both z-score
  columns as they are and replaces every defined delta \<open>d\<close> of the two delta columns by
  \<open>max 0 d\<close>, so that no cleaned delta is negative. The monthly table is computed from
  the cleaned frame: the aggregate of a year and month is the sum of \<open>max 0 d\<close> over the
  raw death deltas \<open>d\<close> of the New York rows of that year and month, and it is this table,
  next to the cleaned frame, that the script yields.
\<close>

theorem clean_keeps_zscores:
  "\<exists>q. query t = Inr q
     \<and> map confirmed_cases_day_zscore (clean q) = map confirmed_cases_day_zscore q
     \<and> map deaths_day_zscore (clean q) = map deaths_day_zscore q
     \<and> map confirmed_cases_day (clean q) =
         map (\<lambda>r. map_option (max 0) (confirmed_cases_day r)) q
     \<and> map deaths_day (clean q) = map (\<lambda>r. map_option (max 0) (deaths_day r)) q
     \<and> (\<forall>r \<in> set (clean q).
          (\<forall>d. confirmed_cases_day r = Some d \<longrightarrow> 0 \<le> d)
          \<and> (\<forall>d. deaths_day r = Some d \<longrightarrow> 0 \<le> d))
     \<and> map deaths_day (ny_data (clean q)) =
         map (\<lambda>r. map_option (max 0) (deaths_day r)) (ny_data q)
     \<and> (\<forall>y mo v. ((y, mo), v) \<in> set (monthly_deaths (ny_data (clean q))) \<longrightarrow>
          v = sum_list (map (\<lambda>r. case deaths_day r of None \<Rightarrow> 0 | Some d \<Rightarrow> max 0 d)
                    (filter (\<lambda>r. state_name r = ''New York''
                                  \<and> fst (date r) = y \<and> fst (snd (date r)) = mo) q)))
     \<and> (script tb t pop_per_state = Inl AssertionError
         \<or> (\<exists>res. script tb t pop_per_state = Inr res
               \<and> res_data res = clean q
               \<and> res_monthly_deaths res = monthly_deaths (ny_data (clean q))))
     \<and> (\<forall>r \<in> set q.
          confirmed_cases_day_zscore r =
            sample_zscore (confirmed_cases_day r)
              (non_null (map confirmed_cases_day
                 (filter (\<lambda>x. state_name x = state_name r) (us_states_day t))))
          \<and> deaths_day_zscore r =
            sample_zscore (deaths_day r)
              (non_null (map deaths_day
                 (filter (\<lambda>x. state_name x = state_name r) (us_states_day t)))))"
proof -
  let ?q = "the_rows (query t)"
  have q: "query t = Inr ?q"
    by (simp add: query_total the_rows_def)
  have z: "map confirmed_cases_day_zscore (clean ?q) = map confirmed_cases_day_zscore ?q"
    "map deaths_day_zscore (clean ?q) = map deaths_day_zscore ?q"
    by (simp_all add: clean_rows comp_def clean_row_fields)
  have c: "map confirmed_cases_day (clean ?q) =
      map (\<lambda>r. map_option (max 0) (confirmed_cases_day r)) ?q"
    "map deaths_day (clean ?q) = map (\<lambda>r. map_option (max 0) (deaths_day r)) ?q"
    by (simp_all add: clean_rows comp_def clean_row_fields)
  have p: "\<forall>r \<in> set (clean ?q).
          (\<forall>d. confirmed_cases_day r = Some d \<longrightarrow> 0 \<le> d)
          \<and> (\<forall>d. deaths_day r = Some d \<longrightarrow> 0 \<le> d)"
    by (auto simp: clean_rows clean_row_fields)
  have n: "map deaths_day (ny_data (clean ?q)) =
      map (\<lambda>r. map_option (max 0) (deaths_day r)) (ny_data ?q)"
    unfolding ny_data_clean by (simp add: clean_rows comp_def clean_row_fields)
  have m: "\<forall>y mo v. ((y, mo), v) \<in> set (monthly_deaths (ny_data (clean ?q))) \<longrightarrow>
          v = sum_list (map (\<lambda>r. case deaths_day r of None \<Rightarrow> 0 | Some d \<Rightarrow> max 0 d)
                    (filter (\<lambda>r. state_name r = ''New York''
                                  \<and> fst (date r) = y \<and> fst (snd (date r)) = mo) ?q))"
    using monthly_deaths_clean_entry by blast
  have s: "script tb t pop_per_state = Inl AssertionError
         \<or> (\<exists>res. script tb t pop_per_state = Inr res
               \<and> res_data res = clean ?q
               \<and> res_monthly_deaths res = monthly_deaths (ny_data (clean ?q)))"
    using script_results[of tb t pop_per_state] by blast
  have r: "\<forall>r \<in> set ?q.
          confirmed_cases_day_zscore r =
            sample_zscore (confirmed_cases_day r)
              (non_null (map confirmed_cases_day
                 (filter (\<lambda>x. state_name x = state_name r) (us_states_day t))))
          \<and> deaths_day_zscore r =
            sample_zscore (deaths_day r)
              (non_null (map deaths_day
                 (filter (\<lambda>x. state_name x = state_name r) (us_states_day t))))"
  proof
    fix r assume "r \<in> set ?q"
    from query_row_origin[OF this] obtain r0
      where "r = zscore_row (us_states_day t) r0" by blast
    then show "confirmed_cases_day_zscore r =
            sample_zscore (confirmed_cases_day r)
              (non_null (map confirmed_cases_day
                 (filter (\<lambda>x. state_name x = state_name r) (us_states_day t))))
          \<and> deaths_day_zscore r =
            sample_zscore (deaths_day r)
              (non_null (map deaths_day
                 (filter (\<lambda>x. state_name x = state_name r) (us_states_day t))))"
      by (simp add: zscore_row_def)
  qed
  from q z c p n m s r show ?thesis
    by (intro exI[of _ ?q] conjI)
qed

text \<open>On the sample table: the third day of New York keeps the raw delta -2 in the query
  result, and its death z-score is the one of -2 among the raw deltas 5, -2, 7; the
  cleaned New York deltas are missing, 5, 0, 7; and the aggregate 7 of April is the sum
  of the clipped raw deltas of the New York rows of April.\<close>

theorem clean_keeps_zscores_witness:
  "filter (\<lambda>r. state_name r = ''New York'') (the_rows (query sample_table)) ! 2
     \<in> set (the_rows (query sample_table))
   \<and> deaths_day
       (filter (\<lambda>r. state_name r = ''New York'') (the_rows (query sample_table)) ! 2) = Some (- 2)
   \<and> deaths_day_zscore
       (filter (\<lambda>r. state_name r = ''New York'') (the_rows (query sample_table)) ! 2) =
     sample_zscore (Some (- 2)) [5, - 2, 7]
   \<and> map deaths_day (ny_data (clean (the_rows (query sample_table)))) =
       [None, Some 5, Some 0, Some 7]
   \<and> ((2020, 4), 7) \<in> set (monthly_deaths (ny_data (clean (the_rows (query sample_table)))))
   \<and> 7 = sum_list (map (\<lambda>r. case deaths_day r of None \<Rightarrow> 0 | Some d \<Rightarrow> max 0 d)
             (filter (\<lambda>r. state_name r = ''New York''
                           \<and> fst (date r) = 2020 \<and> fst (snd (date r)) = 4)
                (the_rows (query sample_table))))"
proof -
  let ?q = "the_rows (query sample_table)"
  let ?r = "filter (\<lambda>r. state_name r = ''New York'') ?q ! 2"
  from clean_keeps_zscores
    [where t = sample_table and tb = "\<lparr>num_rows = 61942, schema = sample_schema\<rparr>"
       and pop_per_state = "[]"]
  obtain q where q: "query sample_table = Inr q"
    and m: "\<forall>y mo v. ((y, mo), v) \<in> set (monthly_deaths (ny_data (clean q))) \<longrightarrow>
          v = sum_list (map (\<lambda>r. case deaths_day r of None \<Rightarrow> 0 | Some d \<Rightarrow> max 0 d)
                    (filter (\<lambda>r. state_name r = ''New York''
                                  \<and> fst (date r) = y \<and> fst (snd (date r)) = mo) q))"
    and z: "\<forall>r \<in> set q.
          confirmed_cases_day_zscore r =
            sample_zscore (confirmed_cases_day r)
              (non_null (map confirmed_cases_day
                 (filter (\<lambda>x. state_name x = state_name r) (us_states_day sample_table))))
          \<and> deaths_day_zscore r =
            sample_zscore (deaths_day r)
              (non_null (map deaths_day
                 (filter (\<lambda>x. state_name x = state_name r) (us_states_day sample_table))))"
    by (elim exE conjE)
  from q have rows: "q = ?q"
    by (simp add: the_rows_def)
  have mem: "?r \<in> set ?q"
    by (rule sample_query_ny_mem) simp
  from z have z': "\<forall>r \<in> set ?q.
          confirmed_cases_day_zscore r =
            sample_zscore (confirmed_cases_day r)
              (non_null (map confirmed_cases_day
                 (filter (\<lambda>x. state_name x = state_name r) (us_states_day sample_table))))
          \<and> deaths_day_zscore r =
            sample_zscore (deaths_day r)
              (non_null (map deaths_day
                 (filter (\<lambda>x. state_name x = state_name r) (us_states_day sample_table))))"
    by (simp only: rows)
  from bspec[OF z' mem] have "deaths_day_zscore ?r =
      sample_zscore (deaths_day ?r)
        (non_null (map deaths_day
           (filter (\<lambda>x. state_name x = state_name ?r) (us_states_day sample_table))))"
    by (rule conjunct2)
  then have zr: "deaths_day_zscore ?r = sample_zscore (Some (- 2)) [5, - 2, 7]"
    by (simp only: sample_query_ny_third sample_cte_ny_deaths)
  have cleaned: "map deaths_day (ny_data (clean ?q)) = [None, Some 5, Some 0, Some 7]"
    unfolding sample_ny_data by (simp add: clean_row_fields zscore_row_fields)
  have april: "((2020, 4), 7) \<in> set (monthly_deaths (ny_data (clean ?q)))"
    by (simp add: sample_monthly_deaths)
  from m have "\<forall>y mo v. ((y, mo), v) \<in> set (monthly_deaths (ny_data (clean ?q))) \<longrightarrow>
          v = sum_list (map (\<lambda>r. case deaths_day r of None \<Rightarrow> 0 | Some d \<Rightarrow> max 0 d)
                    (filter (\<lambda>r. state_name r = ''New York''
                                  \<and> fst (date r) = y \<and> fst (snd (date r)) = mo) ?q))"
    by (simp only: rows)
  then have "((2020, 4), 7) \<in> set (monthly_deaths (ny_data (clean ?q))) \<longrightarrow>
          7 = sum_list (map (\<lambda>r. case deaths_day r of None \<Rightarrow> 0 | Some d \<Rightarrow> max 0 d)
                    (filter (\<lambda>r. state_name r = ''New York''
                                  \<and> fst (date r) = 2020 \<and> fst (snd (date r)) = 4) ?q))"
    by (elim allE)
  from this april
  have total: "7 = sum_list (map (\<lambda>r. case deaths_day r of None \<Rightarrow> 0 | Some d \<Rightarrow> max 0 d)
                    (filter (\<lambda>r. state_name r = ''New York''
                                  \<and> fst (date r) = 2020 \<and> fst (snd (date r)) = 4) ?q))"
    by (rule mp)
  from mem sample_query_ny_third(2) zr cleaned april total show ?thesis
    by (intro conjI)
qed

end
